theory Spec2Isabelle
  imports Main
begin

section \<open>JavaScript values and strings\<close>

text \<open>
  Values that a filter clause, a having clause or a result row can carry. Numbers are
  modelled for integer values (of magnitude below \<open>10^21\<close>, where JavaScript prints
  them as plain decimal digits); strings are ASCII text.
\<close>

datatype jsval =
    JNull
  | JBool bool
  | JNum int
  | JStr string
  | JArr "jsval list"
  | JObj "(string \<times> jsval) list"

text \<open>\<open>Array.isArray(v)\<close>\<close>

fun isArray :: "jsval \<Rightarrow> bool" where
  "isArray (JArr xs) = True"
| "isArray v = False"

text \<open>JavaScript truthiness, as used by \<open>x || y\<close> and \<open>if (x)\<close>.\<close>

fun truthy :: "jsval \<Rightarrow> bool" where
  "truthy JNull = False"
| "truthy (JBool b) = b"
| "truthy (JNum n) = (n \<noteq> 0)"
| "truthy (JStr s) = (s \<noteq> [])"
| "truthy (JArr xs) = True"
| "truthy (JObj kvs) = True"

text \<open>\<open>xs.join(sep)\<close> on strings.\<close>

fun join :: "string \<Rightarrow> string list \<Rightarrow> string" where
  "join sep [] = []"
| "join sep [x] = x"
| "join sep (x # y # ys) = x @ sep @ join sep (y # ys)"

definition digit_char :: "nat \<Rightarrow> char" where
  "digit_char d = ''0123456789'' ! d"

fun string_of_nat :: "nat \<Rightarrow> string" where
  "string_of_nat n =
     (if n < 10 then [digit_char n]
      else string_of_nat (n div 10) @ [digit_char (n mod 10)])"

declare string_of_nat.simps [simp del]

definition string_of_int :: "int \<Rightarrow> string" where
  "string_of_int i = (if i < 0 then CHR ''-'' # string_of_nat (nat (- i)) else string_of_nat (nat i))"

text \<open>
  \<open>String(v)\<close>, which is what a template literal \<open>`${v}`\<close> inserts. An array prints
  its elements joined by commas, \<open>null\<close> elements as the empty string.
\<close>

fun toString :: "jsval \<Rightarrow> string"
  and elemStrings :: "jsval list \<Rightarrow> string list" where
  "toString JNull = ''null''"
| "toString (JBool b) = (if b then ''true'' else ''false'')"
| "toString (JNum n) = string_of_int n"
| "toString (JStr s) = s"
| "toString (JArr xs) = join '','' (elemStrings xs)"
| "toString (JObj kvs) = ''[object Object]''"
| "elemStrings [] = []"
| "elemStrings (x # xs) = (if x = JNull then [] else toString x) # elemStrings xs"

text \<open>\<open>s.split(',')\<close>: always at least one piece.\<close>

fun split_comma :: "string \<Rightarrow> string list" where
  "split_comma [] = [[]]"
| "split_comma (c # cs) =
     (if c = CHR '','' then [] # split_comma cs
      else (case split_comma cs of
              w # ws \<Rightarrow> (c # w) # ws
            | [] \<Rightarrow> [[c]]))"

definition is_space :: "char \<Rightarrow> bool" where
  "is_space c \<longleftrightarrow> c \<in> set [CHR 0x09, CHR 0x0A, CHR 0x0B, CHR 0x0C, CHR 0x0D, CHR 0x20]"

text \<open>\<open>s.trim()\<close> on ASCII text.\<close>

definition trim :: "string \<Rightarrow> string" where
  "trim s = rev (dropWhile is_space (rev (dropWhile is_space s)))"

section \<open>Types of the client (\<open>QueryOptions\<close> and its parts)\<close>

datatype operator =
  Eq | Neq | Gt | Gte | Lt | Lte | Like | Is | In | NotIn | Between | NotBetween | IsNot

text \<open>The operator as the string it is in the source.\<close>

fun operator_name :: "operator \<Rightarrow> string" where
  "operator_name Eq = ''eq''"
| "operator_name Neq = ''neq''"
| "operator_name Gt = ''gt''"
| "operator_name Gte = ''gte''"
| "operator_name Lt = ''lt''"
| "operator_name Lte = ''lte''"
| "operator_name Like = ''like''"
| "operator_name Is = ''is''"
| "operator_name In = ''in''"
| "operator_name NotIn = ''not_in''"
| "operator_name Between = ''between''"
| "operator_name NotBetween = ''not_between''"
| "operator_name IsNot = ''is_not''"

datatype logical = AND | OR

datatype direction = Asc | Desc

record FilterExpression =
  column :: string
  operator :: operator
  fvalue :: jsval
  logical_op :: "logical option"

datatype having_operator = HEq | HNeq | HGt | HGte | HLt | HLte

record HavingFilter =
  hcolumn :: string
  hoperator :: having_operator
  hvalue :: jsval

record OrderByItem =
  ocolumn :: string
  odirection :: direction

text \<open>
  A property of a JavaScript object: not there, there with the value \<open>undefined\<close>, or
  there with a value. An optional field \<open>f?: T\<close> admits all three.
\<close>

datatype 'a js_prop = Absent | Undefined | Val 'a

text \<open>
  \<open>select(...columns)\<close> takes strings and arrays of strings; with several arguments
  the argument list itself is stored, so an element of a stored array is a string or
  an array of strings.
\<close>

datatype column_arg = Col string | Cols "string list"

datatype select_value = SelectString string | SelectArray "column_arg list"

datatype filter_value = FilterOne FilterExpression | FilterArray "FilterExpression list"

datatype group_by_value = GroupByString string | GroupByArray "string list"

datatype having_value = HavingOne HavingFilter | HavingArray "HavingFilter list"

datatype order_value = OrderString string | OrderArray "OrderByItem list"

record QueryOptions =
  o_select :: "select_value js_prop"
  o_filter :: "filter_value js_prop"
  o_group_by :: "group_by_value js_prop"
  o_having :: "having_value js_prop"
  o_order :: "order_value js_prop"
  o_orderDirection :: "direction js_prop"
  o_limit :: "int js_prop"
  o_offset :: "int js_prop"

text \<open>The object \<open>{}\<close>.\<close>

definition empty_options :: QueryOptions where
  "empty_options =
     \<lparr>o_select = Absent, o_filter = Absent, o_group_by = Absent, o_having = Absent,
      o_order = Absent, o_orderDirection = Absent, o_limit = Absent, o_offset = Absent\<rparr>"

record 'row QueryResponse =
  data :: "'row list"
  count :: int
  total :: int
  rlimit :: int
  roffset :: int

datatype WOWSQLError = WOWSQLError string "int option" "jsval option"

section \<open>The query builder\<close>

text \<open>
  The builder's own state is its table name and its \<open>options\<close>; the HTTP client it
  holds is passed to the terminal methods as a function.
\<close>

record QueryBuilder =
  tableName :: string
  options :: QueryOptions

definition new_QueryBuilder :: "string \<Rightarrow> QueryBuilder" where
  "new_QueryBuilder t = \<lparr>tableName = t, options = empty_options\<rparr>"

fun select :: "column_arg list \<Rightarrow> QueryBuilder \<Rightarrow> QueryBuilder" where
  "select [Cols cs] b = b\<lparr>options := (options b)\<lparr>o_select := Val (SelectArray (map Col cs))\<rparr>\<rparr>"
| "select [Col c] b = b\<lparr>options := (options b)\<lparr>o_select := Val (SelectString c)\<rparr>\<rparr>"
| "select columns b = b\<lparr>options := (options b)\<lparr>o_select := Val (SelectArray columns)\<rparr>\<rparr>"

text \<open>
  \<open>filter(column, operator, value, logical_op = 'AND')\<close>; \<open>None\<close> is the omitted
  fourth argument.
\<close>

definition filter_q ::
  "string \<Rightarrow> operator \<Rightarrow> jsval \<Rightarrow> logical option \<Rightarrow> QueryBuilder \<Rightarrow> QueryBuilder" where
  "filter_q col op v lop b =
     (let current = (case o_filter (options b) of
                       Val x \<Rightarrow> x
                     | _ \<Rightarrow> FilterArray []);
          f = \<lparr>column = col, operator = op, fvalue = v,
               logical_op = Some (case lop of None \<Rightarrow> AND | Some l \<Rightarrow> l)\<rparr>
      in case current of
           FilterArray fs \<Rightarrow> b\<lparr>options := (options b)\<lparr>o_filter := Val (FilterArray (fs @ [f]))\<rparr>\<rparr>
         | FilterOne g \<Rightarrow> b\<lparr>options := (options b)\<lparr>o_filter := Val (FilterArray [g, f])\<rparr>\<rparr>)"

definition groupBy :: "group_by_value \<Rightarrow> QueryBuilder \<Rightarrow> QueryBuilder" where
  "groupBy columns b = b\<lparr>options := (options b)\<lparr>o_group_by := Val columns\<rparr>\<rparr>"

definition having :: "string \<Rightarrow> having_operator \<Rightarrow> jsval \<Rightarrow> QueryBuilder \<Rightarrow> QueryBuilder" where
  "having col op v b =
     (let current = (case o_having (options b) of
                       Val x \<Rightarrow> x
                     | _ \<Rightarrow> HavingArray []);
          havingFilter = \<lparr>hcolumn = col, hoperator = op, hvalue = v\<rparr>
      in case current of
           HavingArray hs \<Rightarrow>
             b\<lparr>options := (options b)\<lparr>o_having := Val (HavingArray (hs @ [havingFilter]))\<rparr>\<rparr>
         | HavingOne g \<Rightarrow>
             b\<lparr>options := (options b)\<lparr>o_having := Val (HavingArray [g, havingFilter])\<rparr>\<rparr>)"

text \<open>
  \<open>orderBy(column, direction?)\<close>: the direction is stored only when the column is a
  string and a direction is given.
\<close>

fun orderBy :: "order_value \<Rightarrow> direction option \<Rightarrow> QueryBuilder \<Rightarrow> QueryBuilder" where
  "orderBy (OrderString c) (Some d) b =
     b\<lparr>options := (options b)\<lparr>o_order := Val (OrderString c), o_orderDirection := Val d\<rparr>\<rparr>"
| "orderBy (OrderString c) None b =
     b\<lparr>options := (options b)\<lparr>o_order := Val (OrderString c)\<rparr>\<rparr>"
| "orderBy (OrderArray items) d b =
     b\<lparr>options := (options b)\<lparr>o_order := Val (OrderArray items)\<rparr>\<rparr>"

text \<open>\<open>order(column, direction = 'asc')\<close>\<close>

definition order :: "string \<Rightarrow> direction option \<Rightarrow> QueryBuilder \<Rightarrow> QueryBuilder" where
  "order c d b = orderBy (OrderString c) (Some (case d of None \<Rightarrow> Asc | Some x \<Rightarrow> x)) b"

definition limit :: "int \<Rightarrow> QueryBuilder \<Rightarrow> QueryBuilder" where
  "limit n b = b\<lparr>options := (options b)\<lparr>o_limit := Val n\<rparr>\<rparr>"

definition offset :: "int \<Rightarrow> QueryBuilder \<Rightarrow> QueryBuilder" where
  "offset n b = b\<lparr>options := (options b)\<lparr>o_offset := Val n\<rparr>\<rparr>"

subsection \<open>Convenience methods\<close>

definition eq :: "string \<Rightarrow> jsval \<Rightarrow> QueryBuilder \<Rightarrow> QueryBuilder" where
  "eq c v b = filter_q c Eq v None b"

definition neq :: "string \<Rightarrow> jsval \<Rightarrow> QueryBuilder \<Rightarrow> QueryBuilder" where
  "neq c v b = filter_q c Neq v None b"

definition gt :: "string \<Rightarrow> jsval \<Rightarrow> QueryBuilder \<Rightarrow> QueryBuilder" where
  "gt c v b = filter_q c Gt v None b"

definition gte :: "string \<Rightarrow> jsval \<Rightarrow> QueryBuilder \<Rightarrow> QueryBuilder" where
  "gte c v b = filter_q c Gte v None b"

definition lt :: "string \<Rightarrow> jsval \<Rightarrow> QueryBuilder \<Rightarrow> QueryBuilder" where
  "lt c v b = filter_q c Lt v None b"

definition lte :: "string \<Rightarrow> jsval \<Rightarrow> QueryBuilder \<Rightarrow> QueryBuilder" where
  "lte c v b = filter_q c Lte v None b"

definition like :: "string \<Rightarrow> string \<Rightarrow> QueryBuilder \<Rightarrow> QueryBuilder" where
  "like c v b = filter_q c Like (JStr v) None b"

definition isNull :: "string \<Rightarrow> QueryBuilder \<Rightarrow> QueryBuilder" where
  "isNull c b = filter_q c Is JNull None b"

definition isNotNull :: "string \<Rightarrow> QueryBuilder \<Rightarrow> QueryBuilder" where
  "isNotNull c b = filter_q c IsNot JNull None b"

definition in_q :: "string \<Rightarrow> jsval list \<Rightarrow> QueryBuilder \<Rightarrow> QueryBuilder" where
  "in_q c vs b = filter_q c In (JArr vs) None b"

definition notIn :: "string \<Rightarrow> jsval list \<Rightarrow> QueryBuilder \<Rightarrow> QueryBuilder" where
  "notIn c vs b = filter_q c NotIn (JArr vs) None b"

definition between :: "string \<Rightarrow> jsval \<Rightarrow> jsval \<Rightarrow> QueryBuilder \<Rightarrow> QueryBuilder" where
  "between c minValue maxValue b = filter_q c Between (JArr [minValue, maxValue]) None b"

definition notBetween :: "string \<Rightarrow> jsval \<Rightarrow> jsval \<Rightarrow> QueryBuilder \<Rightarrow> QueryBuilder" where
  "notBetween c minValue maxValue b = filter_q c NotBetween (JArr [minValue, maxValue]) None b"

definition or :: "string \<Rightarrow> operator \<Rightarrow> jsval \<Rightarrow> QueryBuilder \<Rightarrow> QueryBuilder" where
  "or c op v b = filter_q c op v (Some OR) b"

section \<open>Compiling the request (\<open>get\<close>)\<close>

text \<open>The JSON body of the POST endpoint; a key that was never assigned is \<open>None\<close>.\<close>

record body =
  b_select :: "column_arg list option"
  b_filters :: "FilterExpression list option"
  b_group_by :: "string list option"
  b_having :: "HavingFilter list option"
  b_order_by :: "order_value option"
  b_order_direction :: "direction option"
  b_limit :: "int option"
  b_offset :: "int option"

text \<open>The query parameters of the GET endpoint.\<close>

record params =
  p_select :: "string option"
  p_filter :: "string option"
  p_order :: "string option"
  p_order_direction :: "direction option"
  p_limit :: "int option"
  p_offset :: "int option"

text \<open>What the builder hands to the HTTP client: \<open>client.post(path, body)\<close> or
  \<open>client.get(path, { params })\<close>.\<close>

datatype request = Post string body | Get string params

text \<open>The object spread \<open>{ ...a, ...b }\<close>, property by property: every own property of
  \<open>b\<close> wins, also one whose value is \<open>undefined\<close>.\<close>

definition spread_prop :: "'a js_prop \<Rightarrow> 'a js_prop \<Rightarrow> 'a js_prop" where
  "spread_prop a b = (case b of Absent \<Rightarrow> a | _ \<Rightarrow> b)"

definition spread :: "QueryOptions \<Rightarrow> QueryOptions \<Rightarrow> QueryOptions" where
  "spread a b =
     \<lparr>o_select = spread_prop (o_select a) (o_select b),
      o_filter = spread_prop (o_filter a) (o_filter b),
      o_group_by = spread_prop (o_group_by a) (o_group_by b),
      o_having = spread_prop (o_having a) (o_having b),
      o_order = spread_prop (o_order a) (o_order b),
      o_orderDirection = spread_prop (o_orderDirection a) (o_orderDirection b),
      o_limit = spread_prop (o_limit a) (o_limit b),
      o_offset = spread_prop (o_offset a) (o_offset b)\<rparr>"

text \<open>\<open>const finalOptions = { ...this.options, ...additionalOptions }\<close>; \<open>None\<close> is
  the omitted argument.\<close>

definition finalOptions :: "QueryBuilder \<Rightarrow> QueryOptions option \<Rightarrow> QueryOptions" where
  "finalOptions b additionalOptions =
     (case additionalOptions of
        None \<Rightarrow> spread (options b) empty_options
      | Some ov \<Rightarrow> spread (options b) ov)"

text \<open>Reading a property: \<open>undefined\<close> when it is absent.\<close>

fun read_prop :: "'a js_prop \<Rightarrow> 'a option" where
  "read_prop (Val x) = Some x"
| "read_prop p = None"

text \<open>The first half of \<open>get\<close>: the body, field by field, each under the source's
  truthiness test (an empty string is falsy, every array and object is truthy).\<close>

definition build_body :: "QueryOptions \<Rightarrow> body" where
  "build_body fo =
     \<lparr>b_select =
        (case o_select fo of
           Val (SelectArray cs) \<Rightarrow> Some cs
         | Val (SelectString s) \<Rightarrow> if s = [] then None else Some (map (\<lambda>x. Col (trim x)) (split_comma s))
         | _ \<Rightarrow> None),
      b_filters =
        (case o_filter fo of
           Val (FilterArray fs) \<Rightarrow> Some fs
         | Val (FilterOne f) \<Rightarrow> Some [f]
         | _ \<Rightarrow> None),
      b_group_by =
        (case o_group_by fo of
           Val (GroupByArray gs) \<Rightarrow> Some gs
         | Val (GroupByString s) \<Rightarrow> if s = [] then None else Some (map trim (split_comma s))
         | _ \<Rightarrow> None),
      b_having =
        (case o_having fo of
           Val (HavingArray hs) \<Rightarrow> Some hs
         | Val (HavingOne h) \<Rightarrow> Some [h]
         | _ \<Rightarrow> None),
      b_order_by =
        (case o_order fo of
           Val (OrderString s) \<Rightarrow> if s = [] then None else Some (OrderString s)
         | Val (OrderArray items) \<Rightarrow> Some (OrderArray items)
         | _ \<Rightarrow> None),
      b_order_direction =
        (case o_order fo of
           Val (OrderString s) \<Rightarrow>
             if s = [] then None
             else Some (case read_prop (o_orderDirection fo) of Some d \<Rightarrow> d | None \<Rightarrow> Asc)
         | _ \<Rightarrow> None),
      b_limit = read_prop (o_limit fo),
      b_offset = read_prop (o_offset fo)\<rparr>"

text \<open>A key of the body that was assigned; every value assigned to \<open>group_by\<close> and
  \<open>having\<close> is an array, hence truthy.\<close>

fun assigned :: "'a option \<Rightarrow> bool" where
  "assigned (Some x) = True"
| "assigned None = False"

definition hasAdvancedFeatures :: "body \<Rightarrow> bool" where
  "hasAdvancedFeatures bd \<longleftrightarrow>
     assigned (b_group_by bd) \<or>
     assigned (b_having bd) \<or>
     (case b_order_by bd of Some (OrderArray items) \<Rightarrow> True | _ \<Rightarrow> False) \<or>
     (case b_filters bd of
        Some fs \<Rightarrow> list_ex (\<lambda>f. operator f \<in> set [In, NotIn, Between, NotBetween]) fs
      | None \<Rightarrow> False)"

definition hasArrayValues :: "FilterExpression list \<Rightarrow> bool" where
  "hasArrayValues fs = list_ex (\<lambda>f. isArray (fvalue f)) fs"

text \<open>An element of \<open>body.select\<close> as \<open>join\<close> prints it.\<close>

fun column_arg_string :: "column_arg \<Rightarrow> string" where
  "column_arg_string (Col s) = s"
| "column_arg_string (Cols ss) = join '','' ss"

definition filter_token :: "FilterExpression \<Rightarrow> string" where
  "filter_token f = column f @ ''.'' @ operator_name (operator f) @ ''.'' @ toString (fvalue f)"

text \<open>The parameters of the simple path, as the \<open>else\<close> branch assigns them.\<close>

definition build_params :: "body \<Rightarrow> params" where
  "build_params bd =
     \<lparr>p_select = (case b_select bd of Some cs \<Rightarrow> Some (join '','' (map column_arg_string cs)) | None \<Rightarrow> None),
      p_filter =
        (case b_filters bd of
           Some fs \<Rightarrow> if fs \<noteq> [] then Some (join '','' (map filter_token fs)) else None
         | None \<Rightarrow> None),
      p_order = (case b_order_by bd of Some (OrderString s) \<Rightarrow> Some s | _ \<Rightarrow> None),
      p_order_direction =
        (case b_order_by bd of
           Some (OrderString s) \<Rightarrow> Some (case b_order_direction bd of Some d \<Rightarrow> d | None \<Rightarrow> Asc)
         | _ \<Rightarrow> None),
      p_limit = b_limit bd,
      p_offset = b_offset bd\<rparr>"

text \<open>The one HTTP call that \<open>get(additionalOptions)\<close> makes.\<close>

definition get_request :: "QueryBuilder \<Rightarrow> QueryOptions option \<Rightarrow> request" where
  "get_request b additionalOptions =
     (let bd = build_body (finalOptions b additionalOptions)
      in if hasAdvancedFeatures bd then Post (''/'' @ tableName b @ ''/query'') bd
         else if (case b_filters bd of Some fs \<Rightarrow> fs \<noteq> [] \<and> hasArrayValues fs | None \<Rightarrow> False)
              then Post (''/'' @ tableName b @ ''/query'') bd
              else Get (''/'' @ tableName b) (build_params bd))"

section \<open>Terminal methods\<close>

text \<open>
  The HTTP client answers a request with the response body or throws the error its
  interceptor built. A terminal call is described by the request it sent, its result
  (\<open>Inl\<close> the thrown error) and the builder as the call leaves it.
\<close>

type_synonym http = "request \<Rightarrow> WOWSQLError + jsval QueryResponse"

record 'a terminal =
  sent :: request
  result :: "WOWSQLError + 'a"
  this :: QueryBuilder

definition get :: "http \<Rightarrow> QueryBuilder \<Rightarrow> QueryOptions option \<Rightarrow> jsval QueryResponse terminal" where
  "get client b additionalOptions =
     (let r = get_request b additionalOptions
      in \<lparr>sent = r, result = client r, this = b\<rparr>)"

definition execute :: "http \<Rightarrow> QueryBuilder \<Rightarrow> QueryOptions option \<Rightarrow> jsval QueryResponse terminal" where
  "execute client b additionalOptions = get client b additionalOptions"

text \<open>\<open>first()\<close>: \<open>this.limit(1).get()\<close>, then \<open>result.data[0] || null\<close>.\<close>

definition first :: "http \<Rightarrow> QueryBuilder \<Rightarrow> jsval terminal" where
  "first client b =
     (let t = get client (limit 1 b) None
      in \<lparr>sent = sent t,
          result =
            (case result t of
               Inl e \<Rightarrow> Inl e
             | Inr res \<Rightarrow>
                 Inr (case data res of
                        [] \<Rightarrow> JNull
                      | x # xs \<Rightarrow> if truthy x then x else JNull)),
          this = this t\<rparr>)"

section \<open>Notions used to state the properties\<close>

text \<open>The filter clauses of a set of options, whichever form the field has.\<close>

definition clauses :: "QueryOptions \<Rightarrow> FilterExpression list" where
  "clauses fo =
     (case o_filter fo of
        Val (FilterArray fs) \<Rightarrow> fs
      | Val (FilterOne f) \<Rightarrow> [f]
      | _ \<Rightarrow> [])"

text \<open>The limit a request carries, in its parameters or in its body.\<close>

fun request_limit :: "request \<Rightarrow> int option" where
  "request_limit (Get path ps) = p_limit ps"
| "request_limit (Post path bd) = b_limit bd"

text \<open>The order specification a request carries: the \<open>order_by\<close> value and the
  direction that accompanies a single column.\<close>

fun wire_order :: "request \<Rightarrow> order_value option \<times> direction option" where
  "wire_order (Get path ps) =
     ((case p_order ps of Some c \<Rightarrow> Some (OrderString c) | None \<Rightarrow> None), p_order_direction ps)"
| "wire_order (Post path bd) = (b_order_by bd, b_order_direction bd)"

text \<open>One call of \<open>orderBy\<close> or \<open>order\<close> with its arguments, and a sequence of them
  made on a builder from left to right.\<close>

datatype order_call = CallOrderBy order_value "direction option" | CallOrder string "direction option"

fun call :: "order_call \<Rightarrow> QueryBuilder \<Rightarrow> QueryBuilder" where
  "call (CallOrderBy c d) b = orderBy c d b"
| "call (CallOrder c d) b = order c d b"

definition calls :: "order_call list \<Rightarrow> QueryBuilder \<Rightarrow> QueryBuilder" where
  "calls cs b = foldl (\<lambda>acc c. call c acc) b cs"

text \<open>A call that settles the direction by itself: every call except
  \<open>orderBy(column)\<close> with a single column and no direction.\<close>

fun settles_direction :: "order_call \<Rightarrow> bool" where
  "settles_direction (CallOrderBy (OrderString c) None) = False"
| "settles_direction c = True"

text \<open>Two HTTP clients for concrete runs: a server that finds no row, and one that
  rejects every request.\<close>

definition no_rows :: http where
  "no_rows r = Inr \<lparr>data = [], count = 0, total = 0, rlimit = 1, roffset = 0\<rparr>"

definition unauthorized :: http where
  "unauthorized r = Inl (WOWSQLError ''Unauthorized'' (Some 401) None)"

section \<open>How the body depends on the options\<close>

lemma finalOptions_None: "finalOptions b None = options b"
  by (simp add: finalOptions_def spread_def spread_prop_def empty_options_def)

lemma b_group_by_body:
  "assigned (b_group_by (build_body fo)) \<longleftrightarrow> (\<exists>g. o_group_by fo = Val g \<and> g \<noteq> GroupByString '''')"
  by (cases "o_group_by fo") (auto simp: build_body_def split: group_by_value.splits)

lemma b_having_body:
  "assigned (b_having (build_body fo)) \<longleftrightarrow> (\<exists>h. o_having fo = Val h)"
  by (cases "o_having fo") (auto simp: build_body_def split: having_value.splits)

lemma b_order_by_array:
  "(case b_order_by (build_body fo) of Some (OrderArray items) \<Rightarrow> True | _ \<Rightarrow> False)
     \<longleftrightarrow> (\<exists>items. o_order fo = Val (OrderArray items))"
  by (cases "o_order fo") (auto simp: build_body_def split: order_value.splits)

lemma b_filters_body:
  "b_filters (build_body fo) = (case o_filter fo of Val x \<Rightarrow> Some (clauses fo) | _ \<Rightarrow> None)"
  by (cases "o_filter fo") (auto simp: build_body_def clauses_def split: filter_value.splits)

lemma clauses_Nil: "read_prop (o_filter fo) = None \<Longrightarrow> clauses fo = []"
  by (cases "o_filter fo") (auto simp: clauses_def)

text \<open>The test \<open>hasAdvancedFeatures\<close>, read on the merged options.\<close>

lemma hasAdvancedFeatures_iff:
  "hasAdvancedFeatures (build_body fo) \<longleftrightarrow>
     (\<exists>g. o_group_by fo = Val g \<and> g \<noteq> GroupByString '''')
   \<or> (\<exists>h. o_having fo = Val h)
   \<or> (\<exists>items. o_order fo = Val (OrderArray items))
   \<or> (\<exists>f \<in> set (clauses fo). operator f \<in> {In, NotIn, Between, NotBetween})"
proof -
  have "(case b_filters (build_body fo) of
           Some fs \<Rightarrow> list_ex (\<lambda>f. operator f \<in> set [In, NotIn, Between, NotBetween]) fs
         | None \<Rightarrow> False)
        \<longleftrightarrow> (\<exists>f \<in> set (clauses fo). operator f \<in> {In, NotIn, Between, NotBetween})"
    by (cases "o_filter fo") (auto simp: b_filters_body list_ex_iff clauses_Nil)
  then show ?thesis
    unfolding hasAdvancedFeatures_def b_group_by_body b_having_body b_order_by_array by simp
qed

text \<open>The second, late test on array values.\<close>

lemma hasArrayValues_iff:
  "(case b_filters (build_body fo) of Some fs \<Rightarrow> fs \<noteq> [] \<and> hasArrayValues fs | None \<Rightarrow> False)
     \<longleftrightarrow> (\<exists>f \<in> set (clauses fo). isArray (fvalue f))"
  by (cases "o_filter fo") (auto simp: b_filters_body hasArrayValues_def list_ex_iff clauses_Nil)

lemma sent_get: "sent (get client b ov) = get_request b ov"
  by (simp add: get_def Let_def)

lemma sent_execute: "sent (execute client b ov) = get_request b ov"
  by (simp add: execute_def get_def Let_def)

lemma sent_first: "sent (first client b) = get_request (limit 1 b) None"
  by (simp add: first_def get_def Let_def)

lemma result_first:
  "result (first client b) =
     (case client (get_request (limit 1 b) None) of
        Inl e \<Rightarrow> Inl e
      | Inr res \<Rightarrow> Inr (case data res of [] \<Rightarrow> JNull | x # xs \<Rightarrow> if truthy x then x else JNull))"
  by (simp add: first_def get_def Let_def)

lemma request_limit_get_request:
  "request_limit (get_request b ov) = read_prop (o_limit (finalOptions b ov))"
  by (simp add: get_request_def Let_def build_body_def build_params_def)

section \<open>Choice of the wire form\<close>

text \<open>
  C1, as the code has it. Whenever the merged options hold a group-by value other than
  the empty string, or a having value, or the array form of the order, or a filter
  clause with operator \<open>in\<close>, \<open>not_in\<close>, \<open>between\<close> or \<open>not_between\<close>, both \<open>get\<close> and
  \<open>execute\<close> send a POST to \<open>/{table}/query\<close> whose body is the compiled JSON body.
\<close>

theorem advanced_features_post:
  assumes "(\<exists>g. o_group_by (finalOptions b ov) = Val g \<and> g \<noteq> GroupByString '''')
         \<or> (\<exists>h. o_having (finalOptions b ov) = Val h)
         \<or> (\<exists>items. o_order (finalOptions b ov) = Val (OrderArray items))
         \<or> (\<exists>f \<in> set (clauses (finalOptions b ov)). operator f \<in> {In, NotIn, Between, NotBetween})"
  shows "sent (get client b ov) = Post (''/'' @ tableName b @ ''/query'') (build_body (finalOptions b ov))
       \<and> sent (execute client b ov) = Post (''/'' @ tableName b @ ''/query'') (build_body (finalOptions b ov))"
proof -
  have "hasAdvancedFeatures (build_body (finalOptions b ov))"
    using assms unfolding hasAdvancedFeatures_iff .
  then show ?thesis by (simp add: sent_get sent_execute get_request_def)
qed

text \<open>C1 at \<open>groupBy('category')\<close> on table \<open>products\<close>.\<close>

theorem advanced_features_post_witness:
  "sent (get no_rows (groupBy (GroupByString ''category'') (new_QueryBuilder ''products'')) None) =
     Post ''/products/query''
       \<lparr>b_select = None, b_filters = None, b_group_by = Some [''category''], b_having = None,
        b_order_by = None, b_order_direction = None, b_limit = None, b_offset = None\<rparr>"
proof -
  let ?b = "groupBy (GroupByString ''category'') (new_QueryBuilder ''products'')"
  have fo: "finalOptions ?b None = empty_options\<lparr>o_group_by := Val (GroupByString ''category'')\<rparr>"
    by (simp add: finalOptions_None groupBy_def new_QueryBuilder_def)
  have tn: "tableName ?b = ''products''"
    by (simp add: groupBy_def new_QueryBuilder_def)
  have "\<exists>g. o_group_by (finalOptions ?b None) = Val g \<and> g \<noteq> GroupByString ''''"
    by (simp add: fo)
  then have "sent (get no_rows ?b None) =
      Post (''/'' @ tableName ?b @ ''/query'') (build_body (finalOptions ?b None))"
    using advanced_features_post [of ?b None no_rows] by blast
  then show ?thesis
    by (simp add: fo tn build_body_def empty_options_def trim_def is_space_def)
qed

text \<open>
  C1 as stated fails: after \<open>groupBy('')\<close> the group-by field is present in the
  builder's state, yet \<open>get()\<close> sends a GET to \<open>/users\<close> with no parameter at all.
\<close>

theorem empty_group_by_string_get:
  "o_group_by (options (groupBy (GroupByString '''') (new_QueryBuilder ''users''))) =
     Val (GroupByString '''')
   \<and> sent (get no_rows (groupBy (GroupByString '''') (new_QueryBuilder ''users'')) None) =
     Get ''/users'' \<lparr>p_select = None, p_filter = None, p_order = None,
       p_order_direction = None, p_limit = None, p_offset = None\<rparr>"
  by (simp add: sent_get get_request_def finalOptions_None build_body_def build_params_def
      hasAdvancedFeatures_def groupBy_def new_QueryBuilder_def empty_options_def)

text \<open>
  C2. When every filter clause of the merged options has an operator among \<open>eq\<close>,
  \<open>neq\<close>, \<open>gt\<close>, \<open>gte\<close>, \<open>lt\<close>, \<open>lte\<close>, \<open>like\<close>, \<open>is\<close>, \<open>is_not\<close> and a value that
  is not an array, the order is absent or a single column, and there is neither a
  group-by nor a having field, both \<open>get\<close> and \<open>execute\<close> send a GET to \<open>/{table}\<close> with
  the query parameters.
\<close>

theorem simple_query_get:
  assumes "\<forall>f \<in> set (clauses (finalOptions b ov)).
             operator f \<in> {Eq, Neq, Gt, Gte, Lt, Lte, Like, Is, IsNot} \<and> \<not> isArray (fvalue f)"
    and "read_prop (o_order (finalOptions b ov)) = None
         \<or> (\<exists>c. o_order (finalOptions b ov) = Val (OrderString c))"
    and "read_prop (o_group_by (finalOptions b ov)) = None"
    and "read_prop (o_having (finalOptions b ov)) = None"
  shows "sent (get client b ov) = Get (''/'' @ tableName b) (build_params (build_body (finalOptions b ov)))
       \<and> sent (execute client b ov) = Get (''/'' @ tableName b) (build_params (build_body (finalOptions b ov)))"
proof -
  let ?fo = "finalOptions b ov"
  have g: "\<not> (\<exists>g. o_group_by ?fo = Val g \<and> g \<noteq> GroupByString '''')"
    using assms(3) by auto
  have h: "\<not> (\<exists>h. o_having ?fo = Val h)"
    using assms(4) by auto
  have ord: "\<not> (\<exists>items. o_order ?fo = Val (OrderArray items))"
    using assms(2) by auto
  have f: "\<not> (\<exists>f \<in> set (clauses ?fo). operator f \<in> {In, NotIn, Between, NotBetween})"
    using assms(1) by auto
  have "\<not> hasAdvancedFeatures (build_body ?fo)"
    unfolding hasAdvancedFeatures_iff using g h ord f by blast
  moreover have "\<not> (case b_filters (build_body ?fo) of
                      Some fs \<Rightarrow> fs \<noteq> [] \<and> hasArrayValues fs | None \<Rightarrow> False)"
    unfolding hasArrayValues_iff using assms(1) by blast
  ultimately show ?thesis by (simp add: sent_get sent_execute get_request_def)
qed

text \<open>C2 at \<open>.filter('age','gt',18).order('name')\<close> on table \<open>users\<close>.\<close>

theorem simple_query_get_witness:
  "sent (get no_rows (order ''name'' None (filter_q ''age'' Gt (JNum 18) None (new_QueryBuilder ''users''))) None) =
     Get ''/users'' \<lparr>p_select = None, p_filter = Some ''age.gt.18'', p_order = Some ''name'',
       p_order_direction = Some Asc, p_limit = None, p_offset = None\<rparr>"
proof -
  let ?b = "order ''name'' None (filter_q ''age'' Gt (JNum 18) None (new_QueryBuilder ''users''))"
  have fo: "finalOptions ?b None =
      empty_options\<lparr>o_filter := Val (FilterArray [\<lparr>column = ''age'', operator = Gt,
                                                   fvalue = JNum 18, logical_op = Some AND\<rparr>]),
                     o_order := Val (OrderString ''name''), o_orderDirection := Val Asc\<rparr>"
    by (simp add: finalOptions_None order_def filter_q_def new_QueryBuilder_def empty_options_def)
  have tn: "tableName ?b = ''users''"
    by (simp add: order_def filter_q_def new_QueryBuilder_def empty_options_def)
  have 1: "\<forall>f \<in> set (clauses (finalOptions ?b None)).
             operator f \<in> {Eq, Neq, Gt, Gte, Lt, Lte, Like, Is, IsNot} \<and> \<not> isArray (fvalue f)"
    by (simp add: fo clauses_def)
  have 2: "read_prop (o_order (finalOptions ?b None)) = None
           \<or> (\<exists>c. o_order (finalOptions ?b None) = Val (OrderString c))"
    by (simp add: fo)
  have 3: "read_prop (o_group_by (finalOptions ?b None)) = None"
    by (simp add: fo empty_options_def)
  have 4: "read_prop (o_having (finalOptions ?b None)) = None"
    by (simp add: fo empty_options_def)
  show ?thesis
    using simple_query_get [OF 1 2 3 4, of no_rows]
    by (simp add: fo tn build_body_def build_params_def empty_options_def filter_token_def
        string_of_int_def string_of_nat.simps digit_char_def)
qed

text \<open>
  C3 does not hold of the code. The chain \<open>.filter('category','eq','electronics','AND')
  .filter('price','gt',1000,'OR')\<close>, and the same chain written with \<open>eq\<close> and \<open>or\<close>, is
  sent as a GET whose \<open>filter\<close> parameter lists the two tokens with nothing left of the
  OR.
\<close>

theorem or_filter_sent_as_get:
  "sent (get no_rows (filter_q ''price'' Gt (JNum 1000) (Some OR)
      (filter_q ''category'' Eq (JStr ''electronics'') (Some AND) (new_QueryBuilder ''products''))) None) =
     Get ''/products'' \<lparr>p_select = None, p_filter = Some ''category.eq.electronics,price.gt.1000'',
       p_order = None, p_order_direction = None, p_limit = None, p_offset = None\<rparr>
   \<and> sent (get no_rows (or ''price'' Gt (JNum 1000)
      (eq ''category'' (JStr ''electronics'') (new_QueryBuilder ''products''))) None) =
     Get ''/products'' \<lparr>p_select = None, p_filter = Some ''category.eq.electronics,price.gt.1000'',
       p_order = None, p_order_direction = None, p_limit = None, p_offset = None\<rparr>"
  by (simp add: sent_get get_request_def finalOptions_None build_body_def build_params_def
      hasAdvancedFeatures_def hasArrayValues_def or_def eq_def filter_q_def new_QueryBuilder_def
      empty_options_def filter_token_def string_of_int_def string_of_nat.simps digit_char_def)

section \<open>Two compiled chains\<close>

text \<open>
  C4. On any table, \<open>.select(['id','name']).filter('age','gte',18)
  .order('created_at','desc').limit(10).get()\<close> sends a GET to \<open>/{table}\<close> whose
  parameters are exactly \<open>select = "id,name"\<close>, \<open>filter = "age.gte.18"\<close>,
  \<open>order = "created_at"\<close>, \<open>order_direction = "desc"\<close>, \<open>limit = 10\<close>, and no \<open>offset\<close>.
\<close>

theorem simple_chain_params:
  "sent (get client (limit 10 (order ''created_at'' (Some Desc) (filter_q ''age'' Gte (JNum 18) None
      (select [Cols [''id'', ''name'']] (new_QueryBuilder t))))) None) =
   Get (''/'' @ t)
     \<lparr>p_select = Some ''id,name'', p_filter = Some ''age.gte.18'', p_order = Some ''created_at'',
      p_order_direction = Some Desc, p_limit = Some 10, p_offset = None\<rparr>"
  by (simp add: sent_get get_request_def finalOptions_None build_body_def build_params_def
      hasAdvancedFeatures_def hasArrayValues_def limit_def order_def filter_q_def
      new_QueryBuilder_def empty_options_def filter_token_def string_of_int_def
      string_of_nat.simps digit_char_def)

text \<open>
  C5. On any table, \<open>.filter('category','in',['a','b']).groupBy('category')
  .having('COUNT(*)','gt',5).get()\<close> sends a POST to \<open>/{table}/query\<close> whose body has
  the one filter clause with \<open>logical_op\<close> \<open>AND\<close>, \<open>group_by\<close> the one-element list
  \<open>['category']\<close>, the one having clause, and no other key.
\<close>

theorem advanced_chain_body:
  "sent (get client (having ''COUNT(*)'' HGt (JNum 5) (groupBy (GroupByString ''category'')
      (filter_q ''category'' In (JArr [JStr ''a'', JStr ''b'']) None (new_QueryBuilder t)))) None) =
   Post (''/'' @ t @ ''/query'')
     \<lparr>b_select = None,
      b_filters = Some [\<lparr>column = ''category'', operator = In, fvalue = JArr [JStr ''a'', JStr ''b''],
                         logical_op = Some AND\<rparr>],
      b_group_by = Some [''category''],
      b_having = Some [\<lparr>hcolumn = ''COUNT(*)'', hoperator = HGt, hvalue = JNum 5\<rparr>],
      b_order_by = None, b_order_direction = None, b_limit = None, b_offset = None\<rparr>"
  by (simp add: sent_get get_request_def finalOptions_None build_body_def hasAdvancedFeatures_def
      having_def groupBy_def filter_q_def new_QueryBuilder_def empty_options_def trim_def
      is_space_def)

section \<open>Terminal methods and the builder's state\<close>

text \<open>
  C6. \<open>first()\<close> sends a request whose limit is 1, also right after \<open>limit(n)\<close>; when
  the response has no row its result is \<open>null\<close>; and it throws exactly when the HTTP
  client throws, with the client's error.
\<close>

theorem first_limit_one_null_on_empty:
  "request_limit (sent (first client (limit n b))) = Some 1
   \<and> request_limit (sent (first client b)) = Some 1
   \<and> (\<forall>res. client (sent (first client b)) = Inr res \<and> data res = []
         \<longrightarrow> result (first client b) = Inr JNull)
   \<and> (\<forall>e. result (first client b) = Inl e \<longleftrightarrow> client (sent (first client b)) = Inl e)"
proof -
  have lim: "request_limit (sent (first client b')) = Some 1" for b'
    by (simp add: sent_first request_limit_get_request finalOptions_None limit_def)
  have empty: "\<forall>res. client (sent (first client b)) = Inr res \<and> data res = []
         \<longrightarrow> result (first client b) = Inr JNull"
    by (simp add: sent_first result_first)
  have err: "\<forall>e. result (first client b) = Inl e \<longleftrightarrow> client (sent (first client b)) = Inl e"
    by (simp add: sent_first result_first split: sum.splits)
  show ?thesis using lim empty err by blast
qed

text \<open>C6 after \<open>limit(50)\<close>, against a server with no row and against one that rejects
  the request.\<close>

theorem first_limit_one_null_on_empty_witness:
  "request_limit (sent (first no_rows (limit 50 (new_QueryBuilder ''users'')))) = Some 1
   \<and> result (first no_rows (limit 50 (new_QueryBuilder ''users''))) = Inr JNull
   \<and> result (first unauthorized (limit 50 (new_QueryBuilder ''users''))) =
       Inl (WOWSQLError ''Unauthorized'' (Some 401) None)"
  using first_limit_one_null_on_empty [of no_rows 50 "new_QueryBuilder ''users''"]
    first_limit_one_null_on_empty [of no_rows 50 "limit 50 (new_QueryBuilder ''users'')"]
    first_limit_one_null_on_empty [of unauthorized 50 "limit 50 (new_QueryBuilder ''users'')"]
  by (simp add: no_rows_def unauthorized_def)

text \<open>
  C7, as the code has it. \<open>get\<close> and \<open>execute\<close> leave the builder as it was, for every
  overrides argument; \<open>first\<close> leaves the table name and every option but the limit as
  they were, and sets the stored limit to 1.
\<close>

theorem terminal_calls_frame:
  "this (get client b ov) = b
   \<and> this (execute client b ov) = b
   \<and> this (first client b) = b\<lparr>options := (options b)\<lparr>o_limit := Val 1\<rparr>\<rparr>"
  by (simp add: first_def execute_def get_def Let_def limit_def)

text \<open>
  C7 as stated fails for \<open>first\<close>: on a builder with \<open>limit(50)\<close> the stored options
  after the call differ from those before it, the limit having gone from 50 to 1.
\<close>

theorem first_overwrites_stored_limit:
  "options (this (first no_rows (limit 50 (new_QueryBuilder ''users'')))) \<noteq>
     options (limit 50 (new_QueryBuilder ''users''))
   \<and> o_limit (options (limit 50 (new_QueryBuilder ''users''))) = Val 50
   \<and> o_limit (options (this (first no_rows (limit 50 (new_QueryBuilder ''users''))))) = Val 1"
  by (simp add: first_def get_def Let_def limit_def new_QueryBuilder_def empty_options_def)

text \<open>
  C8. A second \<open>get\<close> on the builder that a first \<open>get\<close> left, with the same overrides
  (or none), sends the very same request: same method, path and parameters or body,
  whatever the server answered in between.
\<close>

theorem get_twice_same_request:
  "sent (get client' (this (get client b ov)) ov) = sent (get client b ov)"
  by (simp add: get_def Let_def)

section \<open>Order calls\<close>

lemma calls_snoc: "calls (cs @ [c]) b = call c (calls cs b)"
  by (simp add: calls_def)

lemma calls_single: "calls [c] b = call c b"
  by (simp add: calls_def)

text \<open>What one \<open>orderBy\<close> stores: always the order, the direction only with a single
  column and a direction given.\<close>

lemma orderBy_eq:
  "orderBy c d b =
     b\<lparr>options := (options b)
         \<lparr>o_order := Val c,
          o_orderDirection :=
            (case c of
               OrderString s \<Rightarrow> (case d of Some x \<Rightarrow> Val x | None \<Rightarrow> o_orderDirection (options b))
             | OrderArray items \<Rightarrow> o_orderDirection (options b))\<rparr>\<rparr>"
  by (cases "(c, d, b)" rule: orderBy.cases) simp_all

text \<open>The order part of the request, read off the merged options, on either path.\<close>

lemma wire_order_get_request:
  "wire_order (get_request b ov) =
     (b_order_by (build_body (finalOptions b ov)), b_order_direction (build_body (finalOptions b ov)))"
proof (cases "o_order (finalOptions b ov)")
  case (Val x)
  then show ?thesis
    by (cases x)
       (simp_all add: get_request_def Let_def build_body_def build_params_def hasAdvancedFeatures_def)
qed (simp_all add: get_request_def Let_def build_body_def build_params_def)

lemma call_order:
  "o_order (options (call c b)) =
     Val (case c of CallOrderBy x d \<Rightarrow> x | CallOrder s d \<Rightarrow> OrderString s)"
  by (cases c) (simp_all add: order_def orderBy_eq)

lemma body_order_by_cong:
  "o_order fo = o_order fo' \<Longrightarrow> b_order_by (build_body fo) = b_order_by (build_body fo')"
  by (simp add: build_body_def)

lemma settles_direction_cases:
  assumes "settles_direction c"
  obtains (array) items d where "c = CallOrderBy (OrderArray items) d"
    | (single) s x where "c = CallOrderBy (OrderString s) (Some x)"
    | (order) s d where "c = CallOrder s d"
proof (cases c)
  case (CallOrderBy v d)
  then show ?thesis
    using assms array single by (cases v; cases d) auto
next
  case (CallOrder s d)
  then show ?thesis using order by blast
qed

lemma settled_direction:
  assumes "settles_direction c"
  shows "b_order_direction (build_body (options (call c b))) =
         b_order_direction (build_body (options (call c b')))"
  using assms
proof (cases rule: settles_direction_cases)
  case (array items d)
  then show ?thesis by (simp add: orderBy_eq build_body_def)
next
  case (single s x)
  then show ?thesis by (simp add: orderBy_eq build_body_def)
next
  case (order s d)
  then show ?thesis by (simp add: order_def orderBy_eq build_body_def)
qed

text \<open>
  C9, as the code has it. After any sequence of \<open>order\<close>/\<open>orderBy\<close> calls the compiled
  \<open>order_by\<close> value is that of the last call alone; and the whole compiled order
  specification, \<open>order_by\<close> with its \<open>order_direction\<close>, is that of the last call alone
  whenever the last call settles the direction itself: \<open>order(...)\<close>,
  \<open>orderBy(column, direction)\<close> or the multi-key \<open>orderBy(list)\<close>.
\<close>

theorem last_order_call_wins:
  "fst (wire_order (get_request (calls (cs @ [c]) b) None)) =
     fst (wire_order (get_request (calls [c] b) None))
   \<and> (settles_direction c \<longrightarrow>
        wire_order (get_request (calls (cs @ [c]) b) None) =
          wire_order (get_request (calls [c] b) None))"
proof -
  have "b_order_by (build_body (options (call c (calls cs b)))) =
        b_order_by (build_body (options (call c b)))"
    by (rule body_order_by_cong) (simp add: call_order)
  then show ?thesis
    by (auto simp: wire_order_get_request finalOptions_None calls_snoc calls_single
        dest: settled_direction [of c "calls cs b" b])
qed

text \<open>C9 at \<open>orderBy('created_at','desc')\<close>, \<open>orderBy([{a, asc}])\<close>, \<open>order('name')\<close>:
  only \<open>name\<close>, ascending, is left.\<close>

theorem last_order_call_wins_witness:
  "wire_order (get_request (calls [CallOrderBy (OrderString ''created_at'') (Some Desc),
                                   CallOrderBy (OrderArray [\<lparr>ocolumn = ''a'', odirection = Asc\<rparr>]) None,
                                   CallOrder ''name'' None] (new_QueryBuilder ''users'')) None)
     = (Some (OrderString ''name''), Some Asc)"
  using last_order_call_wins [of "[CallOrderBy (OrderString ''created_at'') (Some Desc),
                 CallOrderBy (OrderArray [\<lparr>ocolumn = ''a'', odirection = Asc\<rparr>]) None]"
               "CallOrder ''name'' None" "new_QueryBuilder ''users''"]
  by (simp add: wire_order_get_request finalOptions_None calls_def order_def new_QueryBuilder_def
      empty_options_def build_body_def)

text \<open>
  C9 as stated fails: \<open>orderBy('created_at','desc')\<close> followed by \<open>orderBy('name')\<close>
  compiles to \<open>name\<close> with direction \<open>desc\<close>, whereas \<open>orderBy('name')\<close> alone compiles
  to \<open>name\<close> with direction \<open>asc\<close>.
\<close>

theorem orderBy_keeps_earlier_direction:
  "wire_order (get_request (calls [CallOrderBy (OrderString ''created_at'') (Some Desc),
                                   CallOrderBy (OrderString ''name'') None] (new_QueryBuilder ''users'')) None)
     = (Some (OrderString ''name''), Some Desc)
   \<and> wire_order (get_request (calls [CallOrderBy (OrderString ''name'') None] (new_QueryBuilder ''users'')) None)
     = (Some (OrderString ''name''), Some Asc)"
  by (simp add: wire_order_get_request finalOptions_None calls_def new_QueryBuilder_def
      empty_options_def build_body_def)

section \<open>Overrides\<close>







text \<open>The request of that call: the accumulated select with the overrides' filter and
  limit.\<close>

lemma overrides_request_example:
  "sent (get no_rows (filter_q ''age'' Gt (JNum 18) None
              (limit 10 (select [Col ''id''] (new_QueryBuilder ''users''))))
      (Some (empty_options\<lparr>o_filter := Val (FilterOne \<lparr>column = ''name'', operator = Eq,
                                                         fvalue = JStr ''Ann'', logical_op = None\<rparr>),
                            o_limit := Val 5\<rparr>))) =
     Get ''/users'' \<lparr>p_select = Some ''id'', p_filter = Some ''name.eq.Ann'', p_order = None,
       p_order_direction = None, p_limit = Some 5, p_offset = None\<rparr>"
  by (simp add: sent_get get_request_def finalOptions_def spread_def spread_prop_def
      build_body_def build_params_def hasAdvancedFeatures_def hasArrayValues_def
      filter_q_def limit_def new_QueryBuilder_def empty_options_def filter_token_def
      trim_def is_space_def)

end
